theory Spec2Isabelle
  imports Main
begin

section \<open>Data model of the phonebook views\<close>

text \<open>
  Modelled from the spec: the privacy levels \<^verbatim>\<open>PUBLIC\<close>, \<^verbatim>\<open>MOZILLIANS\<close>,
  \<^verbatim>\<open>EMPLOYEES\<close> and \<^verbatim>\<open>PRIVILEGED\<close> that the views import from
  \<^verbatim>\<open>mozillians.users.managers\<close>, which is not among the sources. The views only pass
  these constants on, so they are the constructors of an enumeration.
\<close>

datatype privacy = PRIVILEGED | EMPLOYEES | MOZILLIANS | PUBLIC

text \<open>
  Modelled from the spec: a Django \<^verbatim>\<open>User\<close> and its one-to-one \<^verbatim>\<open>UserProfile\<close>
  (\<^verbatim>\<open>mozillians/users/models.py\<close> is not among the sources), with the fields the views
  read. Python's object graph is cyclic (\<^verbatim>\<open>user.userprofile.user\<close>); here the profile carries its user.
  \<^verbatim>\<open>uid\<close> is \<^verbatim>\<open>User.id\<close>, \<^verbatim>\<open>pk\<close> is the profile's primary key
  (\<^verbatim>\<open>profile.pk\<close>, \<^verbatim>\<open>userprofile.id\<close>), and \<^verbatim>\<open>instance_privacy_level\<close> is the
  per-instance level that \<^verbatim>\<open>set_instance_privacy_level\<close> and the
  \<^verbatim>\<open>privacy_level(...)\<close> query set; \<^verbatim>\<open>None\<close> is an instance no level was set on
  (the unfiltered record). \<^verbatim>\<open>profile_groups\<close>, \<^verbatim>\<open>profile_skills\<close> and
  \<^verbatim>\<open>profile_languages\<close> are the names of \<^verbatim>\<open>profile.groups.all().order_by('name')\<close> and
  of its two siblings, in that order; \<^verbatim>\<open>apiapp_set\<close> holds each API app with its
  \<^verbatim>\<open>is_active\<close> flag.
\<close>

record user =
  uid :: int
  username :: string
  email :: string
  apiapp_set :: "(string \<times> bool) list"

record userprofile =
  pk :: int
  user :: user
  full_name :: string
  is_vouched :: bool
  vouched_by :: "int option"
  privacy_level :: privacy
  basket_token :: string
  profile_groups :: "string list"
  profile_skills :: "string list"
  profile_languages :: "string list"
  instance_privacy_level :: "privacy option"

text \<open>
  Modelled from the spec: \<^verbatim>\<open>LOGIN_MESSAGE\<close> and \<^verbatim>\<open>GET_VOUCHED_MESSAGE\<close>, the messages
  of the "authentication required" and of the "vouch required" signal, which the
  views import from \<^verbatim>\<open>mozillians.common.middleware\<close> (not among the sources). They are
  kept symbolic; every other flash message is its text.
\<close>

datatype message_text = LOGIN_MESSAGE | GET_VOUCHED_MESSAGE | Text string

datatype level = INFO | SUCCESS | WARNING | ERROR

type_synonym message = "level \<times> message_text"

datatype http_method = HTTP_GET | HTTP_POST | HTTP_OTHER

text \<open>
  The request. \<^verbatim>\<open>request_method\<close> is \<^verbatim>\<open>request.method\<close>, \<^verbatim>\<open>full_path\<close> the
  requested path, and \<^verbatim>\<open>request_user\<close> is \<^verbatim>\<open>request.user\<close>: \<^verbatim>\<open>None\<close> is the
  \<^verbatim>\<open>AnonymousUser\<close>, \<^verbatim>\<open>Some p\<close> is an authenticated user given by its profile
  (\<^verbatim>\<open>request.user.userprofile\<close> is \<^verbatim>\<open>p\<close>, \<^verbatim>\<open>request.user\<close> is \<^verbatim>\<open>user p\<close>).
  \<^verbatim>\<open>GET\<close> maps a key to the value \<^verbatim>\<open>request.GET.get\<close> returns for it,
  \<^verbatim>\<open>LANG\<close> is \<^verbatim>\<open>request.locale\<close>,
  \<^verbatim>\<open>messages\<close> is the message storage that \<^verbatim>\<open>django.contrib.messages\<close> appends to.
\<close>

record request =
  request_method :: http_method
  full_path :: string
  request_user :: "userprofile option"
  GET :: "string \<rightharpoonup> string"
  POST :: "(string \<times> string) list"
  FILES :: "(string \<times> string) list"
  LANG :: string
  is_ajax :: bool
  messages :: "message list"

definition is_authenticated :: "request \<Rightarrow> bool" where
  "is_authenticated r = (request_user r \<noteq> None)"

definition add_message :: "level \<Rightarrow> message_text \<Rightarrow> request \<Rightarrow> request" where
  "add_message l m r = r\<lparr>messages := messages r @ [(l, m)]\<rparr>"

datatype error =
    Http404
  | DoesNotExist
  | MultipleObjectsReturned
  | AttributeError
  | IndexError
  | ZeroDivisionError
  | OverflowError
  | PageNotAnInteger
  | EmptyPage

subsection \<open>Forms, pages and responses\<close>

text \<open>
  A Django form as the views use it: whether it is bound, its error dictionary as a
  list of field and message (empty for an unbound form), and the model instance it
  was built for.
\<close>

record 'a form =
  is_bound :: bool
  errors :: "(string \<times> string) list"
  form_instance :: 'a

definition is_valid :: "'a form \<Rightarrow> bool" where
  "is_valid f = (is_bound f \<and> errors f = [])"

text \<open>A page of a paginator: its objects and its 1-based number.\<close>

record page =
  page_objects :: "userprofile list"
  number :: int

text \<open>The context dictionary of \<^verbatim>\<open>phonebook/profile.html\<close>; an absent key is \<^verbatim>\<open>None\<close>.\<close>

record profile_data =
  privacy_mode :: "string option"
  vouch_form :: "int option"
  shown_user :: user
  profile :: userprofile

text \<open>
  The context of \<^verbatim>\<open>phonebook/edit_profile.html\<close>; \<^verbatim>\<open>editor_profile\<close> is its key
  \<^verbatim>\<open>profile\<close>.
\<close>

record edit_data =
  profile_form :: "userprofile form"
  user_form :: "user form"
  user_groups :: string
  my_vouches :: "userprofile list"
  editor_profile :: userprofile
  apps :: "(string \<times> bool) list"

text \<open>
  The context of the search templates. \<^verbatim>\<open>people\<close> is \<^verbatim>\<open>None\<close> for the initial empty
  list and a page otherwise; \<^verbatim>\<open>search_form\<close> is the form, given by the data it is
  bound to; \<^verbatim>\<open>limit\<close>, \<^verbatim>\<open>groups\<close> and \<^verbatim>\<open>curated_groups\<close> are \<^verbatim>\<open>None\<close> as long as
  Python's \<^verbatim>\<open>None\<close> is their value.
\<close>

record search_data =
  people :: "page option"
  search_form :: "string \<rightharpoonup> string"
  limit :: "int option"
  show_pagination :: bool
  num_pages :: int
  groups :: "string list option"
  curated_groups :: "string list option"

datatype template_context =
    ProfileContext profile_data
  | EditProfileContext edit_data
  | SearchContext search_data

text \<open>
  A response: \<^verbatim>\<open>redirect\<close> to a named URL with its arguments, the redirect to the
  login page that \<^verbatim>\<open>login_required\<close> answers with (its argument is the destination
  kept for after the login), \<^verbatim>\<open>render\<close> of a template with a context and a status,
  and the 405 of \<^verbatim>\<open>require_POST\<close>.
\<close>

datatype response =
    Redirect string "string list"
  | RedirectToLogin string
  | Render string template_context int
  | HttpResponseNotAllowed

type_synonym result = "(error + response) \<times> message list"

section \<open>The queries on \<^verbatim>\<open>UserProfile.objects\<close>\<close>

text \<open>
  The table of profiles is a list, a queryset is a list, and the queryset methods the
  views call are list functions: \<^verbatim>\<open>filter(user__username=username)\<close>,
  \<^verbatim>\<open>exclude(full_name='')\<close>, \<^verbatim>\<open>exists()\<close> and \<^verbatim>\<open>get(...)\<close>, which raises unless
  exactly one row matches.
\<close>

definition filter_username :: "string \<Rightarrow> userprofile list \<Rightarrow> userprofile list" where
  "filter_username uname qs = filter (\<lambda>p. username (user p) = uname) qs"

definition exclude_empty_full_name :: "userprofile list \<Rightarrow> userprofile list" where
  "exclude_empty_full_name qs = filter (\<lambda>p. full_name p \<noteq> []) qs"

definition exists :: "userprofile list \<Rightarrow> bool" where
  "exists qs = (qs \<noteq> [])"

fun get_one :: "userprofile list \<Rightarrow> error + userprofile" where
  "get_one [] = Inl DoesNotExist"
| "get_one [p] = Inr p"
| "get_one (p # q # qs) = Inl MultipleObjectsReturned"

definition get_username :: "string \<Rightarrow> userprofile list \<Rightarrow> error + userprofile" where
  "get_username uname qs = get_one (filter_username uname qs)"

text \<open>
  Modelled from the spec: \<^verbatim>\<open>set_instance_privacy_level\<close> of the profile model and the
  \<^verbatim>\<open>privacy_level(level)\<close> query of its manager (\<^verbatim>\<open>mozillians/users/models.py\<close> and
  \<^verbatim>\<open>managers.py\<close> are not among the sources). The first sets the effective privacy
  level of one instance; the second fetches the same underlying records as the plain
  query, each filtered to the given tier, that is, with that effective level.
\<close>

definition set_instance_privacy_level :: "privacy \<Rightarrow> userprofile \<Rightarrow> userprofile" where
  "set_instance_privacy_level l p = p\<lparr>instance_privacy_level := Some l\<rparr>"

definition privacy_level_qs :: "privacy \<Rightarrow> userprofile list \<Rightarrow> userprofile list" where
  "privacy_level_qs l qs = map (set_instance_privacy_level l) qs"

section \<open>\<^verbatim>\<open>view_profile\<close>\<close>

text \<open>
  Django's \<^verbatim>\<open>login_required\<close> decorator: the wrapped view runs for an authenticated
  user, anybody else is redirected to the login page with the requested path as the
  destination.
\<close>

definition login_required :: "(request \<Rightarrow> string \<Rightarrow> result) \<Rightarrow> request \<Rightarrow> string \<Rightarrow> result" where
  "login_required view r uname =
     (if is_authenticated r then view r uname
      else (Inr (RedirectToLogin (full_path r)), messages r))"

lemma login_required_cong [fundef_cong]:
  assumes "r = r'" and "uname = uname'"
    and "is_authenticated r' \<Longrightarrow> view r' uname' = view' r' uname'"
  shows "login_required view r uname = login_required view' r' uname'"
  using assms by (simp add: login_required_def)

text \<open>
  The viewer of an own profile: \<^verbatim>\<open>request.user.is_authenticated() and
  request.user.username == username\<close>.
\<close>

definition own_profile :: "request \<Rightarrow> string \<Rightarrow> userprofile option" where
  "own_profile r uname =
     (case request_user r of
        None \<Rightarrow> None
      | Some me \<Rightarrow> if username (user me) = uname then Some me else None)"

text \<open>
  \<^verbatim>\<open>view_profile\<close>. \<^verbatim>\<open>public_q\<close> is the filter behind the manager's
  \<^verbatim>\<open>public()\<close> query (not among the sources), \<^verbatim>\<open>objects\<close> the table of profiles.
  The result is the response or the exception raised, with the message storage the
  request ends with. The three queries of the second branch are pure, so the outcome
  \<^verbatim>\<open>found\<close> of the lines after the gate (the 404 check, the fetch and the instance
  privacy level) is bound before the gate that precedes them in the source.
\<close>

function view_profile ::
  "(userprofile \<Rightarrow> bool) \<Rightarrow> userprofile list \<Rightarrow> request \<Rightarrow> string \<Rightarrow> result" where
  "view_profile public_q objects r uname =
     (case own_profile r uname of
        Some me \<Rightarrow>
          (let view_as = (case GET r ''view_as'' of None \<Rightarrow> ''myself'' | Some v \<Rightarrow> v);
               fetched =
                 (if view_as = ''anonymous''
                    then get_username uname (privacy_level_qs PUBLIC objects)
                  else if view_as = ''mozillian''
                    then get_username uname (privacy_level_qs MOZILLIANS objects)
                  else if view_as = ''employee''
                    then get_username uname (privacy_level_qs EMPLOYEES objects)
                  else if view_as = ''privileged''
                    then get_username uname (privacy_level_qs PRIVILEGED objects)
                  else Inr me)
           in case fetched of
                Inl e \<Rightarrow> (Inl e, messages r)
              | Inr p \<Rightarrow>
                  (Inr (Render ''phonebook/profile.html''
                          (ProfileContext \<lparr>privacy_mode = Some view_as, vouch_form = None,
                                            shown_user = user p, profile = p\<rparr>) 200),
                   messages r))
      | None \<Rightarrow>
          (let userprofile_query = filter_username uname objects;
               public_profile_exists = exists (filter public_q userprofile_query);
               profile_exists = exists userprofile_query;
               profile_complete = exists (exclude_empty_full_name userprofile_query);
               found =
                 (if \<not> profile_exists \<or> \<not> profile_complete
                    then (Inl Http404, messages r)
                  else case get_username uname objects of
                         Inl e \<Rightarrow> (Inl e, messages r)
                       | Inr p0 \<Rightarrow>
                           (let p1 = set_instance_privacy_level PUBLIC p0;
                                p = (case request_user r of
                                       None \<Rightarrow> p1
                                     | Some me \<Rightarrow>
                                         set_instance_privacy_level (privacy_level me) p1);
                                form =
                                  (if \<not> is_vouched p
                                      \<and> (case request_user r of
                                            None \<Rightarrow> False | Some me \<Rightarrow> is_vouched me)
                                   then Some (pk p) else None)
                            in (Inr (Render ''phonebook/profile.html''
                                       (ProfileContext
                                          \<lparr>privacy_mode = None, vouch_form = form,
                                           shown_user = user p, profile = p\<rparr>) 200),
                                messages r)))
           in if \<not> public_profile_exists
                then (case request_user r of
                        None \<Rightarrow>
                          login_required (\<lambda>r' uname'. view_profile public_q objects r' uname')
                            (add_message WARNING LOGIN_MESSAGE r) uname
                      | Some me \<Rightarrow>
                          if \<not> is_vouched me
                            then (Inr (Redirect ''phonebook:home'' []),
                                  messages (add_message ERROR GET_VOUCHED_MESSAGE r))
                          else found)
              else found))"
  by pat_completeness auto
termination
  by (relation "{}") (simp_all add: is_authenticated_def add_message_def)

declare view_profile.simps [simp del]

section \<open>\<^verbatim>\<open>edit_profile\<close>\<close>

text \<open>
  What the views do to the world besides answering: rows saved by a form, the call of
  \<^verbatim>\<open>update_invites\<close>, tasks handed to the asynchronous dispatcher with \<^verbatim>\<open>delay\<close>,
  the anonymized profile stored by \<^verbatim>\<open>anonymize()\<close>, a log line (its format and
  argument) and the logout. A handler reports them in the order it performs them.
\<close>

datatype task =
    unindex_objects "int list" bool
  | remove_from_basket_task string string

datatype event =
    SaveUser user
  | SaveProfile userprofile
  | UpdateInvites
  | Delay task
  | Anonymized userprofile
  | LogInfo string int
  | Logout

text \<open>
  The forms of \<^verbatim>\<open>mozillians.phonebook.forms\<close> are not among the sources. They are
  parameters of the view: for each form its validation (the errors of a bound form
  on the submitted data, files and instance) and the instance its \<^verbatim>\<open>save()\<close> stores.
  The profile form is \<^verbatim>\<open>ProfileForm\<close> or, for a new profile, \<^verbatim>\<open>RegisterForm\<close>; it also
  receives the locale and the initial groups, skills and languages.
\<close>

datatype profile_form_class = ProfileForm | RegisterForm

record forms_module =
  UserForm_errors :: "(string \<times> string) list \<Rightarrow> user \<Rightarrow> (string \<times> string) list"
  UserForm_save :: "(string \<times> string) list \<Rightarrow> user \<Rightarrow> user"
  ProfileForm_errors ::
    "profile_form_class \<Rightarrow> (string \<times> string) list \<Rightarrow> (string \<times> string) list
      \<Rightarrow> userprofile \<Rightarrow> string \<Rightarrow> string \<times> string \<times> string \<Rightarrow> (string \<times> string) list"
  ProfileForm_save ::
    "profile_form_class \<Rightarrow> (string \<times> string) list \<Rightarrow> (string \<times> string) list
      \<Rightarrow> userprofile \<Rightarrow> userprofile"

text \<open>
  A Django form is bound when it is given data or files other than \<^verbatim>\<open>None\<close>; the views
  pass \<^verbatim>\<open>request.POST or None\<close>, so an empty submission leaves the form unbound. An
  unbound form has no errors and is not valid.
\<close>

definition make_form :: "bool \<Rightarrow> (string \<times> string) list \<Rightarrow> 'a \<Rightarrow> 'a form" where
  "make_form bound errs inst =
     \<lparr>is_bound = bound, errors = (if bound then errs else []), form_instance = inst\<rparr>"

text \<open>
  Modelled from the spec: \<^verbatim>\<open>stringify_groups\<close> of \<^verbatim>\<open>mozillians.groups.helpers\<close> and the
  profile's \<^verbatim>\<open>is_complete\<close> (neither is among the sources): the comma-joined display
  string of the names, and a profile being complete when its full name is not empty.
\<close>

fun stringify_groups :: "string list \<Rightarrow> string" where
  "stringify_groups [] = []"
| "stringify_groups [g] = g"
| "stringify_groups (g # h # gs) = g @ '','' @ stringify_groups (h # gs)"

definition is_complete :: "userprofile \<Rightarrow> bool" where
  "is_complete p = (full_name p \<noteq> [])"

text \<open>
  The two forms of \<^verbatim>\<open>edit_profile\<close> for the re-fetched row \<^verbatim>\<open>p\<close>
  (\<^verbatim>\<open>User.objects.get(pk=request.user.id)\<close> with its profile): \<^verbatim>\<open>UserForm\<close> on the
  user, and \<^verbatim>\<open>ProfileForm\<close>, or \<^verbatim>\<open>RegisterForm\<close> for a profile that is not complete,
  on the profile.
\<close>

definition edit_form_class :: "userprofile \<Rightarrow> profile_form_class" where
  "edit_form_class p = (if \<not> is_complete p then RegisterForm else ProfileForm)"

definition edit_user_form :: "forms_module \<Rightarrow> request \<Rightarrow> userprofile \<Rightarrow> user form" where
  "edit_user_form F r p =
     make_form (POST r \<noteq> []) (UserForm_errors F (POST r) (user p)) (user p)"

definition edit_profile_form :: "forms_module \<Rightarrow> request \<Rightarrow> userprofile \<Rightarrow> userprofile form" where
  "edit_profile_form F r p =
     make_form (POST r \<noteq> [] \<or> FILES r \<noteq> [])
       (ProfileForm_errors F (edit_form_class p) (POST r) (FILES r) p (LANG r)
          (stringify_groups (profile_groups p), stringify_groups (profile_skills p),
           stringify_groups (profile_languages p)))
       p"

text \<open>
  \<^verbatim>\<open>edit_profile\<close>. \<^verbatim>\<open>User.objects.get(pk=request.user.id)\<close> reads the table, and fails
  for the \<^verbatim>\<open>AnonymousUser\<close>, whose id is \<^verbatim>\<open>None\<close>. The result is the outcome with the
  message storage, and the events.
\<close>

definition edit_profile ::
  "forms_module \<Rightarrow> userprofile list \<Rightarrow> request \<Rightarrow> result \<times> event list" where
  "edit_profile F objects r =
     (case request_user r of
        None \<Rightarrow> ((Inl DoesNotExist, messages r), [])
      | Some me \<Rightarrow>
          (case get_one (filter (\<lambda>p. uid (user p) = uid (user me)) objects) of
             Inl e \<Rightarrow> ((Inl e, messages r), [])
           | Inr p \<Rightarrow>
               (let the_user_form = edit_user_form F r p;
                    new_profile = \<not> is_complete p;
                    the_profile_form = edit_profile_form F r p
                in if is_valid the_user_form \<and> is_valid the_profile_form
                     then
                       (let old_username = username (user me);
                            saved_user = UserForm_save F (POST r) (user p);
                            saved_profile =
                              ProfileForm_save F (edit_form_class p) (POST r) (FILES r)
                                (p\<lparr>user := saved_user\<rparr>);
                            saves = [SaveUser saved_user, SaveProfile saved_profile];
                            notices =
                              (if new_profile
                                 then [(INFO, Text ''Your account has been created.'')]
                               else if username saved_user \<noteq> old_username
                                 then [(INFO, Text (''You changed your username; please note your ''
                                                      @ ''profile URL has also changed.''))]
                               else [])
                        in ((Inr (Redirect ''phonebook:profile_view'' [username saved_user]),
                             messages r @ notices),
                            saves @ (if new_profile then [UpdateInvites] else [])))
                   else
                     (let data = \<lparr>profile_form = the_profile_form,
                                  user_form = the_user_form,
                                  user_groups = stringify_groups (profile_groups p),
                                  my_vouches = filter (\<lambda>q. vouched_by q = Some (pk p)) objects,
                                  editor_profile = me,
                                  apps = filter (\<lambda>a. snd a) (apiapp_set (user p))\<rparr>;
                          status = (if errors the_profile_form \<noteq> [] \<or> errors the_user_form \<noteq> []
                                    then 400 else 200)
                      in ((Inr (Render ''phonebook/edit_profile.html''
                                  (EditProfileContext data) status),
                           messages r),
                          [])))))"

section \<open>\<^verbatim>\<open>delete\<close>\<close>

text \<open>
  The state \<^verbatim>\<open>delete\<close> works on: the object bound to its local variable \<^verbatim>\<open>user\<close>
  together with \<^verbatim>\<open>user.userprofile\<close>, whether the session is still logged in, and the
  events so far. Every statement of the view is a step on this state and reads its
  arguments from the state it is run in.
\<close>

record deletion_state =
  account :: userprofile
  logged_in :: bool
  events :: "event list"

definition delay :: "task \<Rightarrow> deletion_state \<Rightarrow> deletion_state" where
  "delay t s = s\<lparr>events := events s @ [Delay t]\<rparr>"

definition anonymize_account :: "(userprofile \<Rightarrow> userprofile) \<Rightarrow> deletion_state \<Rightarrow> deletion_state" where
  "anonymize_account anonymize s =
     s\<lparr>account := anonymize (account s),
       events := events s @ [Anonymized (anonymize (account s))]\<rparr>"

definition log_info :: "string \<Rightarrow> int \<Rightarrow> deletion_state \<Rightarrow> deletion_state" where
  "log_info fmt n s = s\<lparr>events := events s @ [LogInfo fmt n]\<rparr>"

definition auth_logout :: "deletion_state \<Rightarrow> deletion_state" where
  "auth_logout s = s\<lparr>logged_in := False, events := events s @ [Logout]\<rparr>"

text \<open>
  The body of \<^verbatim>\<open>delete\<close>, statement by statement. \<^verbatim>\<open>anonymize\<close> is the profile's
  \<^verbatim>\<open>anonymize()\<close> (not among the sources): what it turns the account into.
\<close>

definition delete_body :: "(userprofile \<Rightarrow> userprofile) \<Rightarrow> deletion_state \<Rightarrow> deletion_state" where
  "delete_body anonymize s0 =
     (let s = delay (unindex_objects [pk (account s0)] False) s0;
          s = delay (unindex_objects [pk (account s)] True) s;
          s = delay (remove_from_basket_task (email (user (account s)))
                       (basket_token (account s))) s;
          s = anonymize_account anonymize s;
          s = log_info ''Deleting %d'' (uid (user (account s))) s;
          s = auth_logout s
      in s)"

text \<open>
  \<^verbatim>\<open>delete\<close> under \<^verbatim>\<open>require_POST\<close>: any other method is answered with 405 before the
  view runs, and the \<^verbatim>\<open>AnonymousUser\<close> has no \<^verbatim>\<open>userprofile\<close>. The result is the
  response, the request with the user it ends with, and the events.
\<close>

definition delete ::
  "(userprofile \<Rightarrow> userprofile) \<Rightarrow> request \<Rightarrow> (error + response) \<times> request \<times> event list" where
  "delete anonymize r =
     (if request_method r \<noteq> HTTP_POST then (Inr HttpResponseNotAllowed, r, [])
      else case request_user r of
             None \<Rightarrow> (Inl AttributeError, r, [])
           | Some me \<Rightarrow>
               (let s = delete_body anonymize \<lparr>account = me, logged_in = True, events = []\<rparr>
                in (Inr (Redirect ''phonebook:home'' []),
                    r\<lparr>request_user := (if logged_in s then Some (account s) else None)\<rparr>,
                    events s)))"

section \<open>\<^verbatim>\<open>search\<close>\<close>

subsection \<open>Python's slices and floats\<close>

text \<open>Python's \<^verbatim>\<open>xs[lo:hi]\<close> on a list, with its treatment of negative and large bounds.\<close>

definition slice_index :: "int \<Rightarrow> int \<Rightarrow> int" where
  "slice_index n i = (if i < 0 then max 0 (i + n) else min i n)"

definition py_slice :: "'a list \<Rightarrow> int \<Rightarrow> int \<Rightarrow> 'a list" where
  "py_slice xs lo hi =
     (let n = int (length xs); l = slice_index n lo; h = slice_index n hi
      in take (nat (h - l)) (drop (nat l) xs))"

text \<open>
  Python's floats are IEEE doubles, with 53 bits of significand, and every result is
  rounded to the nearest double, a tie to the one with the even significand.
  \<^verbatim>\<open>bit_length n\<close> is the number of bits of \<^verbatim>\<open>n\<close>, and \<^verbatim>\<open>round_half_even n d\<close> the
  integer nearest to \<^verbatim>\<open>n / d\<close>.
\<close>

fun bit_length :: "nat \<Rightarrow> nat" where
  "bit_length n = (if n = 0 then 0 else Suc (bit_length (n div 2)))"

declare bit_length.simps [simp del]

definition round_half_even :: "nat \<Rightarrow> nat \<Rightarrow> nat" where
  "round_half_even n d =
     (let m = n div d; r = n mod d
      in if d < 2 * r \<or> (2 * r = d \<and> odd m) then m + 1 else m)"

text \<open>
  \<^verbatim>\<open>float(n)\<close> for an integer of absolute value \<^verbatim>\<open>n\<close>: the nearest double, which is an
  integer again. The conversion raises \<^verbatim>\<open>OverflowError\<close> when that value is beyond the
  largest double.
\<close>

definition to_double :: "nat \<Rightarrow> nat" where
  "to_double n = (let e = bit_length n - 53 in round_half_even n (2 ^ e) * 2 ^ e)"

definition float_overflow :: "int \<Rightarrow> bool" where
  "float_overflow n = (2 ^ 1024 \<le> to_double (nat \<bar>n\<bar>))"

text \<open>
  The quotient \<^verbatim>\<open>x / y\<close> of two positive doubles with integer values, as a significand
  \<^verbatim>\<open>m\<close> and an exponent \<^verbatim>\<open>p\<close> of the double \<^verbatim>\<open>m * 2 ** p\<close>. The exact quotient lies
  between \<^verbatim>\<open>2 ** e\<close> and \<^verbatim>\<open>2 ** (e + 1)\<close> for \<^verbatim>\<open>e = quotient_exponent x y\<close>, and is
  rounded to a multiple of \<^verbatim>\<open>2 ** (e - 52)\<close>, or of \<^verbatim>\<open>2 ** -1074\<close> where the doubles are
  subnormal. \<^verbatim>\<open>ceil_scaled\<close> and \<^verbatim>\<open>floor_scaled\<close> are the ceiling and the floor of such a
  double.
\<close>

definition quotient_exponent :: "nat \<Rightarrow> nat \<Rightarrow> int" where
  "quotient_exponent x y =
     (let d = int (bit_length x) - int (bit_length y)
      in if y * 2 ^ nat d \<le> x * 2 ^ nat (- d) then d else d - 1)"

definition double_quotient :: "nat \<Rightarrow> nat \<Rightarrow> nat \<times> int" where
  "double_quotient x y =
     (let p = max (quotient_exponent x y - 52) (- 1074)
      in (round_half_even (x * 2 ^ nat (- p)) (y * 2 ^ nat p), p))"

definition ceil_scaled :: "nat \<Rightarrow> int \<Rightarrow> int" where
  "ceil_scaled m p = - ((- (int m * 2 ^ nat p)) div 2 ^ nat (- p))"

definition floor_scaled :: "nat \<Rightarrow> int \<Rightarrow> int" where
  "floor_scaled m p = (int m * 2 ^ nat p) div 2 ^ nat (- p)"

text \<open>
  \<^verbatim>\<open>int(ceil(hits / float(per_page)))\<close> for a positive \<^verbatim>\<open>hits\<close> and a \<^verbatim>\<open>per_page\<close> other
  than zero, both within the range of the doubles: the sign of the quotient is that
  of \<^verbatim>\<open>per_page\<close>, and the ceiling of a negative double is minus the floor of its
  absolute value.
\<close>

definition float_pages :: "int \<Rightarrow> int \<Rightarrow> int" where
  "float_pages hits per =
     (case double_quotient (to_double (nat hits)) (to_double (nat \<bar>per\<bar>)) of
        (m, p) \<Rightarrow> if 0 < per then ceil_scaled m p else - floor_scaled m p)"

subsection \<open>Django's \<^verbatim>\<open>Paginator\<close>\<close>

text \<open>
  \<^verbatim>\<open>django.core.paginator.Paginator(object_list, per_page)\<close> with its defaults
  \<^verbatim>\<open>orphans=0\<close> and \<^verbatim>\<open>allow_empty_first_page=True\<close>. \<^verbatim>\<open>num_pages\<close> is
  \<^verbatim>\<open>int(ceil(hits / float(per_page)))\<close> with \<^verbatim>\<open>hits = max(1, count - orphans)\<close>:
  \<^verbatim>\<open>float(per_page)\<close> is evaluated first, the division then converts \<^verbatim>\<open>hits\<close> and
  raises \<^verbatim>\<open>ZeroDivisionError\<close> for a divisor zero. A page number is what
  \<^verbatim>\<open>request.GET.get('page', 1)\<close> returns: the text of the parameter, or the integer 1.
\<close>

record paginator =
  object_list :: "userprofile list"
  per_page :: int

datatype page_number = PageText string | PageInt int

definition count :: "paginator \<Rightarrow> int" where
  "count pg = int (length (object_list pg))"

definition get_num_pages :: "paginator \<Rightarrow> error + int" where
  "get_num_pages pg =
     (let hits = max 1 (count pg)
      in if float_overflow (per_page pg) \<or> float_overflow hits then Inl OverflowError
         else if per_page pg = 0 then Inl ZeroDivisionError
         else Inr (float_pages hits (per_page pg)))"

text \<open>
  \<^verbatim>\<open>validate_number\<close> starts with \<^verbatim>\<open>int(number)\<close>. Which texts Python's \<^verbatim>\<open>int\<close> reads as
  an integer depends on the interpreter's Unicode tables of blanks and digits, so
  \<^verbatim>\<open>int\<close> on a text is the parameter \<^verbatim>\<open>to_int\<close>, with \<^verbatim>\<open>None\<close> for \<^verbatim>\<open>ValueError\<close>.
\<close>

definition validate_number ::
  "(string \<Rightarrow> int option) \<Rightarrow> paginator \<Rightarrow> page_number \<Rightarrow> error + int" where
  "validate_number to_int pg num =
     (case (case num of PageInt n \<Rightarrow> Some n | PageText s \<Rightarrow> to_int s) of
        None \<Rightarrow> Inl PageNotAnInteger
      | Some n \<Rightarrow>
          if n < 1 then Inl EmptyPage
          else (case get_num_pages pg of
                  Inl e \<Rightarrow> Inl e
                | Inr np \<Rightarrow> if n > np \<and> n \<noteq> 1 then Inl EmptyPage else Inr n))"

text \<open>
  \<^verbatim>\<open>Paginator.page\<close>: the page of a validated number, \<^verbatim>\<open>object_list[bottom:top]\<close>, and
  the whole method.
\<close>

definition page_at :: "paginator \<Rightarrow> int \<Rightarrow> page" where
  "page_at pg n =
     (let bottom = (n - 1) * per_page pg;
          top = bottom + per_page pg;
          top = (if top + 0 \<ge> count pg then count pg else top)
      in \<lparr>page_objects = py_slice (object_list pg) bottom top, number = n\<rparr>)"

definition get_page ::
  "(string \<Rightarrow> int option) \<Rightarrow> paginator \<Rightarrow> page_number \<Rightarrow> error + page" where
  "get_page to_int pg num =
     (case validate_number to_int pg num of
        Inl e \<Rightarrow> Inl e
      | Inr n \<Rightarrow> Inr (page_at pg n))"

text \<open>\<^verbatim>\<open>people[0]\<close> on a page.\<close>

definition first_of_page :: "page \<Rightarrow> error + userprofile" where
  "first_of_page pp = (case page_objects pp of [] \<Rightarrow> Inl IndexError | p # ps \<Rightarrow> Inr p)"

subsection \<open>The view\<close>

text \<open>
  What \<^verbatim>\<open>search\<close> takes from modules that are not among the sources: the validation
  of \<^verbatim>\<open>forms.SearchForm\<close> (the cleaned data of a valid form, \<^verbatim>\<open>None\<close> for an invalid
  one), \<^verbatim>\<open>Group.get_curated()\<close>, \<^verbatim>\<open>Group.search(query)\<close>,
  \<^verbatim>\<open>UserProfile.search(query, public, include_non_vouched)\<close> and
  \<^verbatim>\<open>forms.PAGINATION_LIMIT\<close>. Groups are given by their names. \<^verbatim>\<open>python_int\<close> is
  Python's \<^verbatim>\<open>int\<close> on a text.
\<close>

record search_cleaned =
  cleaned_q :: "string option"
  cleaned_limit :: int
  cleaned_include_non_vouched :: bool

record search_env =
  SearchForm :: "(string \<rightharpoonup> string) \<Rightarrow> search_cleaned option"
  Group_get_curated :: "string list"
  Group_search :: "string \<Rightarrow> string list"
  UserProfile_search :: "string \<Rightarrow> bool \<Rightarrow> bool \<Rightarrow> userprofile list"
  PAGINATION_LIMIT :: int
  python_int :: "string \<Rightarrow> int option"

text \<open>
  \<^verbatim>\<open>public = not (request.user.is_authenticated() and
  request.user.userprofile.is_vouched)\<close>.
\<close>

definition public_viewer :: "request \<Rightarrow> bool" where
  "public_viewer r = (\<not> (case request_user r of None \<Rightarrow> False | Some me \<Rightarrow> is_vouched me))"

text \<open>The \<^verbatim>\<open>try\<close> block around \<^verbatim>\<open>paginator.page(page)\<close> with its two handlers.\<close>

definition get_people ::
  "(string \<Rightarrow> int option) \<Rightarrow> paginator \<Rightarrow> page_number \<Rightarrow> error + page" where
  "get_people to_int pg num =
     (let res = get_page to_int pg num
      in if res = Inl PageNotAnInteger then get_page to_int pg (PageInt 1)
         else if res = Inl EmptyPage
           then (case get_num_pages pg of
                   Inl e \<Rightarrow> Inl e
                 | Inr np \<Rightarrow> get_page to_int pg (PageInt np))
         else res)"

definition render_search :: "request \<Rightarrow> search_data \<Rightarrow> response" where
  "render_search r d =
     (if is_ajax r then Render ''search_ajax.html'' (SearchContext d) 200
      else Render ''phonebook/search.html'' (SearchContext d) 200)"

text \<open>
  The body of \<^verbatim>\<open>search\<close> for a valid form with cleaned data \<^verbatim>\<open>cd\<close>:
  \<^verbatim>\<open>cleaned_data.get('q', u'')\<close>, the search and the paginator; then, for the page
  \<^verbatim>\<open>people\<close>, the single-result redirect or the context that is rendered.
\<close>

definition cleaned_query :: "search_cleaned \<Rightarrow> string" where
  "cleaned_query cd = (case cleaned_q cd of None \<Rightarrow> [] | Some q \<Rightarrow> q)"

definition search_profiles :: "search_env \<Rightarrow> request \<Rightarrow> search_cleaned \<Rightarrow> userprofile list" where
  "search_profiles env r cd =
     UserProfile_search env (cleaned_query cd) (public_viewer r) (cleaned_include_non_vouched cd)"

definition search_groups :: "search_env \<Rightarrow> request \<Rightarrow> search_cleaned \<Rightarrow> string list option" where
  "search_groups env r cd =
     (if \<not> public_viewer r then Some (Group_search env (cleaned_query cd)) else None)"

definition search_paginator :: "search_env \<Rightarrow> request \<Rightarrow> search_cleaned \<Rightarrow> paginator" where
  "search_paginator env r cd =
     \<lparr>object_list = search_profiles env r cd, per_page = cleaned_limit cd\<rparr>"

definition search_respond ::
  "search_env \<Rightarrow> request \<Rightarrow> search_cleaned \<Rightarrow> page \<Rightarrow> error + response" where
  "search_respond env r cd the_people =
     (let profiles = search_profiles env r cd;
          the_groups = search_groups env r cd;
          pg = search_paginator env r cd
      in if int (length profiles) = 1 \<and> (the_groups = None \<or> the_groups = Some [])
           then (case first_of_page the_people of
                   Inl e \<Rightarrow> Inl e
                 | Inr p \<Rightarrow> Inr (Redirect ''phonebook:profile_view'' [username (user p)]))
         else if count pg > PAGINATION_LIMIT env
           then (case get_num_pages pg of
                   Inl e \<Rightarrow> Inl e
                 | Inr np \<Rightarrow>
                     Inr (render_search r
                            \<lparr>people = Some the_people, search_form = GET r,
                             limit = Some (cleaned_limit cd), show_pagination = True,
                             num_pages = max 0 np, groups = the_groups,
                             curated_groups = Some (Group_get_curated env)\<rparr>))
         else Inr (render_search r
                     \<lparr>people = Some the_people, search_form = GET r,
                      limit = Some (cleaned_limit cd), show_pagination = False,
                      num_pages = 0, groups = the_groups,
                      curated_groups = Some (Group_get_curated env)\<rparr>))"

definition search_valid :: "search_env \<Rightarrow> request \<Rightarrow> search_cleaned \<Rightarrow> error + response" where
  "search_valid env r cd =
     (let page_arg = (case GET r ''page'' of None \<Rightarrow> PageInt 1 | Some s \<Rightarrow> PageText s)
      in case get_people (python_int env) (search_paginator env r cd) page_arg of
           Inl e \<Rightarrow> Inl e
         | Inr the_people \<Rightarrow> search_respond env r cd the_people)"

definition search :: "search_env \<Rightarrow> request \<Rightarrow> error + response" where
  "search env r =
     (case SearchForm env (GET r) of
        Some cd \<Rightarrow> search_valid env r cd
      | None \<Rightarrow>
          Inr (render_search r
                 \<lparr>people = None, search_form = GET r, limit = None,
                  show_pagination = False, num_pages = 0, groups = None,
                  curated_groups = None\<rparr>))"


section \<open>Sample data\<close>

definition alice :: userprofile where
  "alice =
     \<lparr>pk = 11,
      user = \<lparr>uid = 1, username = ''alice'', email = ''alice@example.com'',
              apiapp_set = []\<rparr>,
      full_name = ''Alice A'', is_vouched = True, vouched_by = None,
      privacy_level = MOZILLIANS, basket_token = ''token-a'',
      profile_groups = [''mentors'', ''staff''], profile_skills = [], profile_languages = [],
      instance_privacy_level = None\<rparr>"

definition bob :: userprofile where
  "bob =
     \<lparr>pk = 12,
      user = \<lparr>uid = 2, username = ''bob'', email = ''bob@example.com'', apiapp_set = []\<rparr>,
      full_name = ''Bob B'', is_vouched = False, vouched_by = None,
      privacy_level = EMPLOYEES, basket_token = ''token-b'',
      profile_groups = [], profile_skills = [], profile_languages = [],
      instance_privacy_level = None\<rparr>"

definition carol :: userprofile where
  "carol =
     \<lparr>pk = 13,
      user = \<lparr>uid = 3, username = ''carol'', email = ''carol@example.com'',
              apiapp_set = []\<rparr>,
      full_name = [], is_vouched = False, vouched_by = None,
      privacy_level = PUBLIC, basket_token = ''token-c'',
      profile_groups = [], profile_skills = [], profile_languages = [],
      instance_privacy_level = None\<rparr>"


text \<open>A \<^verbatim>\<open>public()\<close> filter for the examples: vouched profiles with a full name.\<close>

definition sample_public_q :: "userprofile \<Rightarrow> bool" where
  "sample_public_q p = (is_vouched p \<and> full_name p \<noteq> [])"

definition sample_request :: "string \<Rightarrow> userprofile option \<Rightarrow> (string \<times> string) list \<Rightarrow> request" where
  "sample_request path who query =
     \<lparr>request_method = HTTP_GET, full_path = path, request_user = who, GET = map_of query,
      POST = [], FILES = [], LANG = ''en-US'', is_ajax = False, messages = []\<rparr>"

text \<open>An \<^verbatim>\<open>anonymize()\<close> for the examples: it wipes the address, the name and the token.\<close>

definition sample_anonymize :: "userprofile \<Rightarrow> userprofile" where
  "sample_anonymize p =
     p\<lparr>user := (user p)\<lparr>email := [], username := ''anonymous''\<rparr>,
       full_name := [], basket_token := []\<rparr>"

text \<open>
  Forms for the examples: the user form asks for a field \<^verbatim>\<open>username\<close> and stores it,
  the profile form asks for \<^verbatim>\<open>full_name\<close> and stores it.
\<close>

definition sample_forms :: forms_module where
  "sample_forms =
     \<lparr>UserForm_errors = (\<lambda>post u.
        case map_of post ''username'' of
          None \<Rightarrow> [(''username'', ''This field is required.'')]
        | Some v \<Rightarrow> []),
      UserForm_save = (\<lambda>post u.
        case map_of post ''username'' of None \<Rightarrow> u | Some v \<Rightarrow> u\<lparr>username := v\<rparr>),
      ProfileForm_errors = (\<lambda>cls post files p lang initial.
        case map_of post ''full_name'' of
          None \<Rightarrow> [(''full_name'', ''This field is required.'')]
        | Some v \<Rightarrow> []),
      ProfileForm_save = (\<lambda>cls post files p.
        case map_of post ''full_name'' of None \<Rightarrow> p | Some v \<Rightarrow> p\<lparr>full_name := v\<rparr>)\<rparr>"











section \<open>Properties of \<^verbatim>\<open>view_profile\<close>\<close>

lemma get_one_map: "get_one (map f xs) = map_sum id f (get_one xs)"
  by (induction xs rule: get_one.induct) simp_all

lemma get_username_privacy_level_qs:
  "get_username uname (privacy_level_qs l qs)
     = map_sum id (set_instance_privacy_level l) (get_username uname qs)"
proof -
  have "filter_username uname (privacy_level_qs l qs)
          = map (set_instance_privacy_level l) (filter_username uname qs)"
    by (simp add: filter_username_def privacy_level_qs_def set_instance_privacy_level_def
          filter_map comp_def)
  then show ?thesis
    by (simp add: get_username_def get_one_map)
qed

lemma own_profile_anonymous: "request_user r = None \<Longrightarrow> own_profile r uname = None"
  by (simp add: own_profile_def)

lemma own_profile_owner:
  "request_user r = Some me \<Longrightarrow> username (user me) = uname \<Longrightarrow> own_profile r uname = Some me"
  by (simp add: own_profile_def)

lemma messages_add_message: "messages (add_message l m r) = messages r @ [(l, m)]"
  by (simp add: add_message_def)

lemma login_required_anonymous:
  "request_user r = None \<Longrightarrow>
   login_required view (add_message l m r) uname
     = (Inr (RedirectToLogin (full_path r)), messages r @ [(l, m)])"
  by (simp add: login_required_def is_authenticated_def add_message_def)

text \<open>
  C1. A viewer who is not authenticated (and so is not the owner) and asks for a profile
  without a public projection is redirected to the login page, with the login message
  and without the vouch message among the messages the view adds: the authentication
  check comes before the vouch check.
\<close>

theorem view_profile_login_before_vouch:
  assumes "request_user r = None"
    and "\<not> exists (filter public_q (filter_username uname objects))"
  shows "view_profile public_q objects r uname
           = (Inr (RedirectToLogin (full_path r)), messages r @ [(WARNING, LOGIN_MESSAGE)])
         \<and> (ERROR, GET_VOUCHED_MESSAGE)
             \<notin> set (drop (length (messages r)) (snd (view_profile public_q objects r uname)))"
  using assms
  by (simp add: view_profile.simps own_profile_anonymous login_required_anonymous Let_def)

text \<open>C1, at an example: an anonymous visitor asks for the non-vouched profile of bob.\<close>

theorem view_profile_login_before_vouch_witness:
  "request_user (sample_request ''/u/bob/'' None []) = None
   \<and> \<not> exists (filter sample_public_q (filter_username ''bob'' [alice, bob]))
   \<and> view_profile sample_public_q [alice, bob] (sample_request ''/u/bob/'' None []) ''bob''
       = (Inr (RedirectToLogin ''/u/bob/''), [(WARNING, LOGIN_MESSAGE)])"
  using view_profile_login_before_vouch
          [of "sample_request ''/u/bob/'' None []" sample_public_q "''bob''" "[alice, bob]"]
  by (simp add: sample_request_def exists_def filter_username_def sample_public_q_def
        alice_def bob_def)

text \<open>
  C2, as stated, fails: for a user name without any record an anonymous visitor is
  sent to the login page and gets no 404.
\<close>

theorem view_profile_missing_counterexample:
  "filter_username ''ghost'' [alice] = []
   \<and> view_profile sample_public_q [alice] (sample_request ''/u/ghost/'' None []) ''ghost''
       = (Inr (RedirectToLogin ''/u/ghost/''), [(WARNING, LOGIN_MESSAGE)])
   \<and> fst (view_profile sample_public_q [alice] (sample_request ''/u/ghost/'' None []) ''ghost'')
       \<noteq> Inl Http404"
  by (simp add: view_profile.simps own_profile_def login_required_def is_authenticated_def
        add_message_def sample_request_def exists_def filter_username_def alice_def Let_def)

text \<open>
  C2, amended. For a user name whose record does not exist, or exists with an empty
  full name only, a viewer other than the owner gets 404 once past the gate of
  profiles without a public projection: when a public projection exists, or when the
  viewer is authenticated and vouched. Without a public projection an anonymous
  viewer is redirected to log in, and an authenticated viewer who is not vouched is
  redirected home with the vouch message.
\<close>

theorem view_profile_not_found:
  assumes "own_profile r uname = None"
    and "filter_username uname objects = []
         \<or> (\<forall>p \<in> set (filter_username uname objects). full_name p = [])"
  shows "view_profile public_q objects r uname
           = (if exists (filter public_q (filter_username uname objects))
                then (Inl Http404, messages r)
              else case request_user r of
                     None \<Rightarrow>
                       (Inr (RedirectToLogin (full_path r)),
                        messages r @ [(WARNING, LOGIN_MESSAGE)])
                   | Some me \<Rightarrow>
                       if is_vouched me then (Inl Http404, messages r)
                       else (Inr (Redirect ''phonebook:home'' []),
                             messages r @ [(ERROR, GET_VOUCHED_MESSAGE)]))"
proof -
  have inc: "\<not> exists (filter_username uname objects)
             \<or> \<not> exists (exclude_empty_full_name (filter_username uname objects))"
    using assms(2) by (auto simp: exists_def exclude_empty_full_name_def filter_empty_conv)
  show ?thesis
    using assms(1) inc
    by (auto simp: view_profile.simps Let_def login_required_anonymous messages_add_message
          split: option.splits)
qed

text \<open>C2, amended, at an example: vouched alice asks for carol, whose full name is empty.\<close>

theorem view_profile_not_found_witness:
  "own_profile (sample_request ''/u/carol/'' (Some alice) []) ''carol'' = None
   \<and> filter_username ''carol'' [alice, carol] = [carol]
   \<and> full_name carol = []
   \<and> view_profile sample_public_q [alice, carol]
        (sample_request ''/u/carol/'' (Some alice) []) ''carol'' = (Inl Http404, [])"
  using view_profile_not_found
          [of "sample_request ''/u/carol/'' (Some alice) []" "''carol''" "[alice, carol]"
              sample_public_q]
  by (simp add: sample_request_def own_profile_def exists_def filter_username_def
        sample_public_q_def alice_def carol_def)

text \<open>
  C3. Whenever the view of somebody else's profile is rendered, the profile shown is
  the fetched record with its instance privacy level set: to the viewer's own privacy
  level when the viewer is authenticated, and to PUBLIC otherwise.
\<close>

theorem view_profile_instance_privacy_level:
  assumes "own_profile r uname = None"
    and "view_profile public_q objects r uname = (Inr (Render t (ProfileContext d) st), ms)"
  shows "\<exists>p0. get_username uname objects = Inr p0
           \<and> profile d = p0\<lparr>instance_privacy_level :=
                               Some (case request_user r of
                                       None \<Rightarrow> PUBLIC
                                     | Some me \<Rightarrow> privacy_level me)\<rparr>"
  using assms
  by (auto simp: view_profile.simps Let_def login_required_def is_authenticated_def
        add_message_def set_instance_privacy_level_def
        split: option.splits if_splits sum.splits)

text \<open>C3, at an example: alice, whose level is MOZILLIANS, views bob.\<close>

theorem view_profile_instance_privacy_level_witness:
  "own_profile (sample_request ''/u/bob/'' (Some alice) []) ''bob'' = None
   \<and> view_profile sample_public_q [alice, bob]
        (sample_request ''/u/bob/'' (Some alice) []) ''bob''
       = (Inr (Render ''phonebook/profile.html''
                 (ProfileContext
                    \<lparr>privacy_mode = None, vouch_form = Some 12, shown_user = user bob,
                     profile = bob\<lparr>instance_privacy_level := Some MOZILLIANS\<rparr>\<rparr>) 200), [])
   \<and> (\<exists>p0. get_username ''bob'' [alice, bob] = Inr p0
         \<and> bob\<lparr>instance_privacy_level := Some MOZILLIANS\<rparr>
             = p0\<lparr>instance_privacy_level := Some MOZILLIANS\<rparr>)"
proof -
  let ?r = "sample_request ''/u/bob/'' (Some alice) []"
  let ?d = "\<lparr>privacy_mode = None, vouch_form = Some 12, shown_user = user bob,
             profile = bob\<lparr>instance_privacy_level := Some MOZILLIANS\<rparr>\<rparr>"
  have own: "own_profile ?r ''bob'' = None"
    by (simp add: own_profile_def sample_request_def alice_def)
  have run: "view_profile sample_public_q [alice, bob] ?r ''bob''
               = (Inr (Render ''phonebook/profile.html'' (ProfileContext ?d) 200), [])"
    by (simp add: view_profile.simps own Let_def)
       (simp add: sample_request_def exists_def filter_username_def get_username_def
          exclude_empty_full_name_def sample_public_q_def set_instance_privacy_level_def
          alice_def bob_def)
  from view_profile_instance_privacy_level [OF own run]
  have "\<exists>p0. get_username ''bob'' [alice, bob] = Inr p0
          \<and> bob\<lparr>instance_privacy_level := Some MOZILLIANS\<rparr>
              = p0\<lparr>instance_privacy_level := Some MOZILLIANS\<rparr>"
    by (simp add: sample_request_def alice_def)
  with own run show ?thesis by blast
qed

text \<open>
  C4. The owner who asks with \<^verbatim>\<open>view_as=anonymous\<close> is shown the record of that user
  name fetched at the PUBLIC level and nothing else: the view renders this record with
  the level PUBLIC, or fails as the fetch fails.
\<close>

theorem view_profile_view_as_anonymous:
  assumes "request_user r = Some me" and "username (user me) = uname"
    and "GET r ''view_as'' = Some ''anonymous''"
  shows "view_profile public_q objects r uname
           = (case get_username uname objects of
                Inl e \<Rightarrow> (Inl e, messages r)
              | Inr own \<Rightarrow>
                  (Inr (Render ''phonebook/profile.html''
                          (ProfileContext
                             \<lparr>privacy_mode = Some ''anonymous'', vouch_form = None,
                              shown_user = user own,
                              profile = own\<lparr>instance_privacy_level := Some PUBLIC\<rparr>\<rparr>) 200),
                   messages r))"
  using assms
  by (simp add: view_profile.simps own_profile_owner Let_def get_username_privacy_level_qs
        set_instance_privacy_level_def split: sum.splits)

text \<open>C4, at an example: alice previews her own profile as an anonymous visitor.\<close>

theorem view_profile_view_as_anonymous_witness:
  "request_user (sample_request ''/u/alice/'' (Some alice) [(''view_as'', ''anonymous'')])
     = Some alice
   \<and> username (user alice) = ''alice''
   \<and> GET (sample_request ''/u/alice/'' (Some alice) [(''view_as'', ''anonymous'')]) ''view_as''
       = Some ''anonymous''
   \<and> view_profile sample_public_q [alice, bob]
        (sample_request ''/u/alice/'' (Some alice) [(''view_as'', ''anonymous'')]) ''alice''
       = (Inr (Render ''phonebook/profile.html''
                 (ProfileContext
                    \<lparr>privacy_mode = Some ''anonymous'', vouch_form = None,
                     shown_user = user alice,
                     profile = alice\<lparr>instance_privacy_level := Some PUBLIC\<rparr>\<rparr>) 200), [])"
  using view_profile_view_as_anonymous
          [of "sample_request ''/u/alice/'' (Some alice) [(''view_as'', ''anonymous'')]"
              alice "''alice''" sample_public_q "[alice, bob]"]
  by (simp add: sample_request_def get_username_def filter_username_def alice_def bob_def)

text \<open>
  C10. For the owner, a \<^verbatim>\<open>view_as\<close> that is none of anonymous, mozillian, employee and
  privileged, the absent parameter (read as myself) included, renders the owner's own
  unfiltered profile, and the value is passed on as \<^verbatim>\<open>privacy_mode\<close>.
\<close>

theorem view_profile_view_as_unrecognised:
  assumes "request_user r = Some me" and "username (user me) = uname"
    and "view_as = (case GET r ''view_as'' of None \<Rightarrow> ''myself'' | Some v \<Rightarrow> v)"
    and "view_as \<notin> {''anonymous'', ''mozillian'', ''employee'', ''privileged''}"
  shows "view_profile public_q objects r uname
           = (Inr (Render ''phonebook/profile.html''
                     (ProfileContext
                        \<lparr>privacy_mode = Some view_as, vouch_form = None,
                         shown_user = user me, profile = me\<rparr>) 200),
              messages r)"
  using assms
  by (simp add: view_profile.simps own_profile_owner Let_def)

text \<open>C10, at two examples: an unknown value, and no parameter at all.\<close>

theorem view_profile_view_as_unrecognised_witness:
  "view_profile sample_public_q [alice, bob]
     (sample_request ''/u/alice/'' (Some alice) [(''view_as'', ''admin'')]) ''alice''
     = (Inr (Render ''phonebook/profile.html''
               (ProfileContext
                  \<lparr>privacy_mode = Some ''admin'', vouch_form = None,
                   shown_user = user alice, profile = alice\<rparr>) 200), [])
   \<and> view_profile sample_public_q [alice, bob]
       (sample_request ''/u/alice/'' (Some alice) []) ''alice''
     = (Inr (Render ''phonebook/profile.html''
               (ProfileContext
                  \<lparr>privacy_mode = Some ''myself'', vouch_form = None,
                   shown_user = user alice, profile = alice\<rparr>) 200), [])"
  using view_profile_view_as_unrecognised
          [of "sample_request ''/u/alice/'' (Some alice) [(''view_as'', ''admin'')]"
              alice "''alice''" "''admin''" sample_public_q "[alice, bob]"]
        view_profile_view_as_unrecognised
          [of "sample_request ''/u/alice/'' (Some alice) []"
              alice "''alice''" "''myself''" sample_public_q "[alice, bob]"]
  by (simp add: sample_request_def alice_def)

section \<open>Properties of \<^verbatim>\<open>delete\<close>\<close>

text \<open>
  C5. For a POST of an authenticated user, \<^verbatim>\<open>delete\<close> performs, in this order: the
  enqueueing of the removal from the private and from the public search index, the
  enqueueing of the mailing-list removal with the address and the basket token the
  account has before it is anonymized, the anonymization, the log line and the
  logout; it answers with the redirect home and leaves the request without a user.
  This holds whatever \<^verbatim>\<open>anonymize()\<close> does to the account.
\<close>

theorem delete_order:
  assumes "request_method r = HTTP_POST" and "request_user r = Some me"
  shows "delete anonymize r
           = (Inr (Redirect ''phonebook:home'' []),
              r\<lparr>request_user := None\<rparr>,
              [Delay (unindex_objects [pk me] False),
               Delay (unindex_objects [pk me] True),
               Delay (remove_from_basket_task (email (user me)) (basket_token me)),
               Anonymized (anonymize me),
               LogInfo ''Deleting %d'' (uid (user (anonymize me))),
               Logout])"
  using assms
  by (simp add: delete_def delete_body_def delay_def anonymize_account_def log_info_def
        auth_logout_def Let_def)

text \<open>
  C5, at an example: alice deletes her account, and the task carries her address and
  token although the anonymized account has neither.
\<close>

theorem delete_order_witness:
  "request_method ((sample_request ''/delete/'' (Some alice) [])\<lparr>request_method := HTTP_POST\<rparr>)
     = HTTP_POST
   \<and> delete sample_anonymize
        ((sample_request ''/delete/'' (Some alice) [])\<lparr>request_method := HTTP_POST\<rparr>)
       = (Inr (Redirect ''phonebook:home'' []),
          (sample_request ''/delete/'' None [])\<lparr>request_method := HTTP_POST\<rparr>,
          [Delay (unindex_objects [11] False),
           Delay (unindex_objects [11] True),
           Delay (remove_from_basket_task ''alice@example.com'' ''token-a''),
           Anonymized (sample_anonymize alice),
           LogInfo ''Deleting %d'' 1,
           Logout])
   \<and> email (user (sample_anonymize alice)) = []
   \<and> basket_token (sample_anonymize alice) = []"
  using delete_order
          [of "(sample_request ''/delete/'' (Some alice) [])\<lparr>request_method := HTTP_POST\<rparr>"
              alice sample_anonymize]
  by (simp add: sample_request_def sample_anonymize_def alice_def)

section \<open>Properties of \<^verbatim>\<open>edit_profile\<close>\<close>

text \<open>
  C9. For an authenticated user whose row is found: when the user form or the profile
  form has errors, \<^verbatim>\<open>edit_profile\<close> renders the edit page with these two forms and
  the status 400; when both forms are valid, it redirects to the profile page of the
  saved user name.
\<close>

theorem edit_profile_status:
  assumes "request_user r = Some me"
    and "get_one (filter (\<lambda>q. uid (user q) = uid (user me)) objects) = Inr p"
  shows "(errors (edit_user_form F r p) \<noteq> [] \<or> errors (edit_profile_form F r p) \<noteq> []
          \<longrightarrow> (\<exists>d. fst (fst (edit_profile F objects r))
                      = Inr (Render ''phonebook/edit_profile.html'' (EditProfileContext d) 400)
                   \<and> user_form d = edit_user_form F r p
                   \<and> profile_form d = edit_profile_form F r p))
         \<and> (is_valid (edit_user_form F r p) \<and> is_valid (edit_profile_form F r p)
            \<longrightarrow> fst (fst (edit_profile F objects r))
                  = Inr (Redirect ''phonebook:profile_view''
                           [username (UserForm_save F (POST r) (user p))]))"
proof (intro conjI impI)
  assume bad: "errors (edit_user_form F r p) \<noteq> [] \<or> errors (edit_profile_form F r p) \<noteq> []"
  then have "\<not> (is_valid (edit_user_form F r p) \<and> is_valid (edit_profile_form F r p))"
    by (auto simp: is_valid_def)
  with assms bad
  show "\<exists>d. fst (fst (edit_profile F objects r))
              = Inr (Render ''phonebook/edit_profile.html'' (EditProfileContext d) 400)
           \<and> user_form d = edit_user_form F r p
           \<and> profile_form d = edit_profile_form F r p"
    by (auto simp: edit_profile_def Let_def)
next
  assume "is_valid (edit_user_form F r p) \<and> is_valid (edit_profile_form F r p)"
  with assms
  show "fst (fst (edit_profile F objects r))
          = Inr (Redirect ''phonebook:profile_view''
                   [username (UserForm_save F (POST r) (user p))])"
    by (simp add: edit_profile_def Let_def)
qed

text \<open>
  C9, at two examples: a submission without the full name is answered with 400, a
  complete one with the redirect to the new user name.
\<close>

theorem edit_profile_status_witness:
  "request_user ((sample_request ''/edit/'' (Some alice) [])
                   \<lparr>request_method := HTTP_POST, POST := [(''username'', ''alice2'')]\<rparr>)
     = Some alice
   \<and> get_one (filter (\<lambda>q. uid (user q) = uid (user alice)) [alice, bob]) = Inr alice
   \<and> errors (edit_profile_form sample_forms
               ((sample_request ''/edit/'' (Some alice) [])
                  \<lparr>request_method := HTTP_POST, POST := [(''username'', ''alice2'')]\<rparr>) alice)
       = [(''full_name'', ''This field is required.'')]
   \<and> (\<exists>d. fst (fst (edit_profile sample_forms [alice, bob]
                        ((sample_request ''/edit/'' (Some alice) [])
                           \<lparr>request_method := HTTP_POST,
                             POST := [(''username'', ''alice2'')]\<rparr>)))
              = Inr (Render ''phonebook/edit_profile.html'' (EditProfileContext d) 400))
   \<and> is_valid (edit_user_form sample_forms
                 ((sample_request ''/edit/'' (Some alice) [])
                    \<lparr>request_method := HTTP_POST,
                      POST := [(''username'', ''alice2''), (''full_name'', ''Alice'')]\<rparr>) alice)
   \<and> is_valid (edit_profile_form sample_forms
                 ((sample_request ''/edit/'' (Some alice) [])
                    \<lparr>request_method := HTTP_POST,
                      POST := [(''username'', ''alice2''), (''full_name'', ''Alice'')]\<rparr>) alice)
   \<and> fst (fst (edit_profile sample_forms [alice, bob]
                  ((sample_request ''/edit/'' (Some alice) [])
                     \<lparr>request_method := HTTP_POST,
                       POST := [(''username'', ''alice2''), (''full_name'', ''Alice'')]\<rparr>)))
       = Inr (Redirect ''phonebook:profile_view'' [''alice2''])"
proof -
  let ?bad = "(sample_request ''/edit/'' (Some alice) [])
                \<lparr>request_method := HTTP_POST, POST := [(''username'', ''alice2'')]\<rparr>"
  let ?good = "(sample_request ''/edit/'' (Some alice) [])
                 \<lparr>request_method := HTTP_POST,
                   POST := [(''username'', ''alice2''), (''full_name'', ''Alice'')]\<rparr>"
  have row: "get_one (filter (\<lambda>q. uid (user q) = uid (user alice)) [alice, bob]) = Inr alice"
    by (simp add: alice_def bob_def)
  have who: "request_user ?bad = Some alice" "request_user ?good = Some alice"
    by (simp_all add: sample_request_def)
  have errs: "errors (edit_profile_form sample_forms ?bad alice)
                = [(''full_name'', ''This field is required.'')]"
    by (simp add: edit_profile_form_def make_form_def sample_forms_def sample_request_def)
  have ok: "is_valid (edit_user_form sample_forms ?good alice)"
           "is_valid (edit_profile_form sample_forms ?good alice)"
    by (simp_all add: is_valid_def edit_user_form_def edit_profile_form_def make_form_def
          sample_forms_def sample_request_def)
  have saved: "username (UserForm_save sample_forms (POST ?good) (user alice)) = ''alice2''"
    by (simp add: sample_forms_def sample_request_def)
  from edit_profile_status [OF who(1) row, of sample_forms] errs
  have a: "\<exists>d. fst (fst (edit_profile sample_forms [alice, bob] ?bad))
                = Inr (Render ''phonebook/edit_profile.html'' (EditProfileContext d) 400)"
    by auto
  from edit_profile_status [OF who(2) row, of sample_forms] ok saved
  have b: "fst (fst (edit_profile sample_forms [alice, bob] ?good))
             = Inr (Redirect ''phonebook:profile_view'' [''alice2''])"
    by simp
  from who(1) row errs a ok b show ?thesis by blast
qed

section \<open>Properties of \<^verbatim>\<open>search\<close>\<close>

subsection \<open>The page count in double precision\<close>



lemma round_half_even_one [simp]: "round_half_even n (Suc 0) = n"
  by (simp add: round_half_even_def)


lemma to_double_one [simp]: "to_double (Suc 0) = Suc 0"
  by (simp add: to_double_def bit_length.simps)









lemma float_overflow_small [simp]: "\<not> float_overflow 0" "\<not> float_overflow 1"
  by (simp_all add: float_overflow_def to_double_def bit_length.simps round_half_even_def)






subsection \<open>The paginator and the view\<close>













subsection \<open>The examples, evaluated\<close>
















subsection \<open>The claims\<close>










end
